theory Spec2Isabelle
  imports Complex_Main "HOL-Library.Word"
begin

unbundle bit_operations_syntax

section \<open>Numbers and colours\<close>

text \<open>
  \<^verbatim>\<open>server.js\<close> computes with JavaScript numbers. They are modelled by exact values:
  minutes and colour channels are \<open>int\<close>, intermediate quotients are \<open>real\<close>. A
  number that is \<open>NaN\<close> is \<open>None\<close> of an option type. The rounding of IEEE doubles
  after each operation is not part of the model.
\<close>

record rgb =
  r :: int
  g :: int
  b :: int

text \<open>\<^verbatim>\<open>Math.round\<close>: the nearest integer, a tie going up.\<close>

definition Math_round :: "real \<Rightarrow> int" where
  "Math_round x = \<lfloor>x + 1 / 2\<rfloor>"

text \<open>The operator \<^verbatim>\<open>%\<close> on integers: the result has the sign of the dividend.\<close>

definition js_rem :: "int \<Rightarrow> int \<Rightarrow> int" where
  "js_rem a n = sgn a * (\<bar>a\<bar> mod \<bar>n\<bar>)"

text \<open>
  What a handler sends: a colour; a colour whose three channels are not finite (a
  division by zero happened; \<^verbatim>\<open>JSON.stringify\<close> writes each as \<^verbatim>\<open>null\<close>);
  \<^verbatim>\<open>{ color: null }\<close>; or status 404.
\<close>

datatype response =
  Json_rgb rgb
| Json_not_finite
| Json_color_null
| Status_404

section \<open>The daylight curve: GET /api/auto-light\<close>

definition sunriseColor :: rgb where
  "sunriseColor = \<lparr>r = 255, g = 150, b = 50\<rparr>"

definition noonColor :: rgb where
  "noonColor = \<lparr>r = 255, g = 255, b = 255\<rparr>"

definition sunsetColor :: rgb where
  "sunsetColor = \<lparr>r = 255, g = 100, b = 100\<rparr>"

text \<open>\<^verbatim>\<open>Math.sin(((time - 6) / 12) * 180 * Math.PI / 180)\<close>\<close>

definition intensity :: "real \<Rightarrow> real" where
  "intensity time =
     (let angleDeg = ((time - 6) / 12) * 180;
          angleRad = (angleDeg * pi) / 180
      in sin angleRad)"

text \<open>The two interpolation branches, before rounding: (r, g, b) as JavaScript numbers.\<close>

definition sunriseToNoon :: "real \<Rightarrow> real \<times> real \<times> real" where
  "sunriseToNoon i =
     (real_of_int (r sunriseColor) + i * real_of_int (r noonColor - r sunriseColor),
      real_of_int (g sunriseColor) + i * real_of_int (g noonColor - g sunriseColor),
      real_of_int (b sunriseColor) + i * real_of_int (b noonColor - b sunriseColor))"

definition noonToSunset :: "real \<Rightarrow> real \<times> real \<times> real" where
  "noonToSunset i =
     (real_of_int (r noonColor) - (1 - i) * real_of_int (r noonColor - r sunsetColor),
      real_of_int (g noonColor) - (1 - i) * real_of_int (g noonColor - g sunsetColor),
      real_of_int (b noonColor) - (1 - i) * real_of_int (b noonColor - b sunsetColor))"

definition daylightChannels :: "real \<Rightarrow> real \<times> real \<times> real" where
  "daylightChannels time =
     (if time < 12 then sunriseToNoon (intensity time) else noonToSunset (intensity time))"

text \<open>
  The first variant of the handler (lines 90 to 127), from the brightness on: the night
  colour and the curve are both scaled by \<open>brightness / 255\<close>.
\<close>

definition autoLightColor :: "real \<Rightarrow> int \<Rightarrow> rgb" where
  "autoLightColor time brightness =
     (if time < 6 \<or> time \<ge> 18 then
        \<lparr>r = Math_round ((20 * real_of_int brightness) / 255),
         g = Math_round ((20 * real_of_int brightness) / 255),
         b = Math_round ((60 * real_of_int brightness) / 255)\<rparr>
      else
        (case daylightChannels time of (cr, cg, cb) \<Rightarrow>
          \<lparr>r = Math_round ((cr * real_of_int brightness) / 255),
           g = Math_round ((cg * real_of_int brightness) / 255),
           b = Math_round ((cb * real_of_int brightness) / 255)\<rparr>))"

text \<open>
  The second variant of the handler (lines 489 to 533) reads no user and no brightness:
  the night colour is the constant, and the curve is only rounded.
\<close>

definition autoLightColor2 :: "real \<Rightarrow> rgb" where
  "autoLightColor2 time =
     (if time < 6 \<or> time \<ge> 18 then \<lparr>r = 20, g = 20, b = 60\<rparr>
      else
        (case daylightChannels time of (cr, cg, cb) \<Rightarrow>
          \<lparr>r = Math_round cr, g = Math_round cg, b = Math_round cb\<rparr>))"

text \<open>\<^verbatim>\<open>new Date()\<close>, as far as the handlers read it.\<close>

record date =
  getHours :: nat
  getMinutes :: nat

definition fractionalHour :: "date \<Rightarrow> real" where
  "fractionalHour now = real (getHours now) + real (getMinutes now) / 60"

section \<open>Stored timers\<close>

text \<open>One element of \<open>lightTimers\<close>: four times and a colour, all of them strings.\<close>

record timer =
  fadeIn :: string
  peakStart :: string
  peakEnd :: string
  fadeOut :: string
  color :: string

section \<open>Parsing colours and times\<close>

definition isDigit :: "char \<Rightarrow> bool" where
  "isDigit c = (48 \<le> (of_char c :: nat) \<and> (of_char c :: nat) \<le> 57)"

definition isHexDigit :: "char \<Rightarrow> bool" where
  "isHexDigit c =
     (let n = (of_char c :: nat)
      in (48 \<le> n \<and> n \<le> 57) \<or> (65 \<le> n \<and> n \<le> 70) \<or> (97 \<le> n \<and> n \<le> 102))"

definition hexValue :: "char \<Rightarrow> int" where
  "hexValue c =
     (let n = (of_char c :: nat)
      in if n \<le> 57 then int n - 48 else if n \<le> 70 then int n - 55 else int n - 87)"

definition isSpace :: "char \<Rightarrow> bool" where
  "isSpace c = ((of_char c :: nat) \<in> {9, 10, 11, 12, 13, 32})"

text \<open>
  \<^verbatim>\<open>parseInt(s, 16)\<close>: leading white space, a sign and a prefix \<^verbatim>\<open>0x\<close> are
  skipped, then the longest run of hexadecimal digits is read; no digit gives
  \<open>NaN\<close>. The value is exact here (JavaScript rounds one of more than 13 digits).
\<close>

definition stripHexPrefix :: "string \<Rightarrow> string" where
  "stripHexPrefix s =
     (case s of
        c # d # rest \<Rightarrow>
          if c = CHR ''0'' \<and> (d = CHR ''x'' \<or> d = CHR ''X'') then rest else s
      | _ \<Rightarrow> s)"

definition parseInt16 :: "string \<Rightarrow> int option" where
  "parseInt16 s =
     (let t = dropWhile isSpace s;
          (sign, u) = (case t of
                         c # rest \<Rightarrow>
                           if c = CHR ''-'' then (- 1, rest)
                           else if c = CHR ''+'' then (1, rest) else (1 :: int, t)
                       | [] \<Rightarrow> (1, t));
          ds = takeWhile isHexDigit (stripHexPrefix u)
      in if ds = [] then None
         else Some (sign * foldl (\<lambda>acc c. acc * 16 + hexValue c) 0 ds))"

text \<open>
  \<^verbatim>\<open>(bigint >> k) & 255\<close>: the operand goes through \<open>ToInt32\<close> (\<open>NaN\<close> becomes
  0, an integer wraps to 32 bits), the shift keeps the sign.
\<close>

definition shiftRightAnd255 :: "int option \<Rightarrow> nat \<Rightarrow> int" where
  "shiftRightAnd255 bigint k =
     (let w = (case bigint of None \<Rightarrow> 0 | Some n \<Rightarrow> (word_of_int n :: 32 word))
      in sint (signed_drop_bit k w AND 255))"

definition hexToRgb :: "string \<Rightarrow> rgb" where
  "hexToRgb hex =
     (let bigint = parseInt16 (remove1 CHR ''#'' hex)
      in \<lparr>r = shiftRightAnd255 bigint 16,
          g = shiftRightAnd255 bigint 8,
          b = shiftRightAnd255 bigint 0\<rparr>)"

text \<open>\<^verbatim>\<open>str.split(":")\<close>\<close>

fun split_colon :: "string \<Rightarrow> string list" where
  "split_colon [] = [[]]"
| "split_colon (c # cs) =
     (if c = CHR '':'' then [] # split_colon cs
      else (case split_colon cs of
              [] \<Rightarrow> [[c]]
            | p # ps \<Rightarrow> (c # p) # ps))"

text \<open>
  \<^verbatim>\<open>Number(s)\<close> on the strings a stored time is made of: the empty string is 0, a
  run of decimal digits is its value. Every other string is \<open>NaN\<close> here; the
  numeric literals of JavaScript with a sign, a fraction, an exponent, a radix prefix
  or white space around them are outside the model.
\<close>

definition Number :: "string \<Rightarrow> int option" where
  "Number s =
     (if list_all isDigit s
      then Some (foldl (\<lambda>acc c. acc * 10 + (int (of_char c) - 48)) 0 s)
      else None)"

text \<open>
  \<^verbatim>\<open>const [h, m] = timeStr.split(":").map(Number); return h * 60 + m;\<close>
  A missing part is \<open>undefined\<close>, and the sum is \<open>NaN\<close>.
\<close>

definition timeToMinutes :: "string \<Rightarrow> int option" where
  "timeToMinutes timeStr =
     (case map Number (split_colon timeStr) of
        Some h # Some m # _ \<Rightarrow> Some (h * 60 + m)
      | _ \<Rightarrow> None)"

definition minutesSinceMidnight :: "date \<Rightarrow> int" where
  "minutesSinceMidnight d = int (getHours d) * 60 + int (getMinutes d)"

section \<open>The timer fades: GET /api/light-timer-color\<close>

text \<open>\<^verbatim>\<open>(x - y + 1440) % 1440\<close> on numbers that may be \<open>NaN\<close>.\<close>

definition cyclicDiff :: "int option \<Rightarrow> int option \<Rightarrow> int option" where
  "cyclicDiff x y =
     (case (x, y) of
        (Some a, Some c) \<Rightarrow> Some (js_rem (a - c + 1440) 1440)
      | _ \<Rightarrow> None)"

text \<open>\<^verbatim>\<open><\<close>, \<^verbatim>\<open><=\<close>: false as soon as a side is \<open>NaN\<close>.\<close>

definition js_less :: "int option \<Rightarrow> int option \<Rightarrow> bool" where
  "js_less x y = (case (x, y) of (Some a, Some c) \<Rightarrow> a < c | _ \<Rightarrow> False)"

definition js_le :: "int option \<Rightarrow> int option \<Rightarrow> bool" where
  "js_le x y = (case (x, y) of (Some a, Some c) \<Rightarrow> a \<le> c | _ \<Rightarrow> False)"

text \<open>
  \<^verbatim>\<open>x / y\<close> of two integers or \<open>NaN\<close>: here \<open>None\<close> is a quotient that is not
  finite (\<open>Infinity\<close> and \<open>-Infinity\<close> of a division by 0, or \<open>NaN\<close>).
\<close>

definition js_divide :: "int option \<Rightarrow> int option \<Rightarrow> real option" where
  "js_divide x y =
     (case (x, y) of
        (Some a, Some c) \<Rightarrow> if c = 0 then None else Some (real_of_int a / real_of_int c)
      | _ \<Rightarrow> None)"

definition fadeInDuration :: "timer \<Rightarrow> int option" where
  "fadeInDuration t = cyclicDiff (timeToMinutes (peakStart t)) (timeToMinutes (fadeIn t))"

definition fadeInElapsed :: "int \<Rightarrow> timer \<Rightarrow> int option" where
  "fadeInElapsed nowMins t = cyclicDiff (Some nowMins) (timeToMinutes (fadeIn t))"

definition inFadeIn :: "int \<Rightarrow> timer \<Rightarrow> bool" where
  "inFadeIn nowMins t = js_less (fadeInElapsed nowMins t) (fadeInDuration t)"

definition inPeak :: "int \<Rightarrow> timer \<Rightarrow> bool" where
  "inPeak nowMins t =
     (let peakStart = timeToMinutes (peakStart t);
          peakEnd = timeToMinutes (peakEnd t)
      in (js_le peakStart peakEnd \<and> js_le peakStart (Some nowMins)
            \<and> js_less (Some nowMins) peakEnd)
         \<or> (js_less peakEnd peakStart
              \<and> (js_le peakStart (Some nowMins) \<or> js_less (Some nowMins) peakEnd)))"

definition fadeOutDuration :: "timer \<Rightarrow> int option" where
  "fadeOutDuration t = cyclicDiff (timeToMinutes (fadeOut t)) (timeToMinutes (peakEnd t))"

definition fadeOutElapsed :: "int \<Rightarrow> timer \<Rightarrow> int option" where
  "fadeOutElapsed nowMins t = cyclicDiff (Some nowMins) (timeToMinutes (peakEnd t))"

definition inFadeOut :: "int \<Rightarrow> timer \<Rightarrow> bool" where
  "inFadeOut nowMins t = js_less (fadeOutElapsed nowMins t) (fadeOutDuration t)"

text \<open>
  \<^verbatim>\<open>res.json({ r: Math.round((color.r * progress * brightness) / 255), ... })\<close>
  A progress that is not finite makes every channel not finite.
\<close>

definition fadeJson :: "rgb \<Rightarrow> real option \<Rightarrow> int \<Rightarrow> response" where
  "fadeJson c progress brightness =
     (case progress of
        None \<Rightarrow> Json_not_finite
      | Some p \<Rightarrow>
          Json_rgb
            \<lparr>r = Math_round ((real_of_int (r c) * p * real_of_int brightness) / 255),
             g = Math_round ((real_of_int (g c) * p * real_of_int brightness) / 255),
             b = Math_round ((real_of_int (b c) * p * real_of_int brightness) / 255)\<rparr>)"

text \<open>\<^verbatim>\<open>res.json({ r: Math.round((color.r * brightness) / 255), ... })\<close>\<close>

definition peakJson :: "rgb \<Rightarrow> int \<Rightarrow> response" where
  "peakJson c brightness =
     Json_rgb
       \<lparr>r = Math_round ((real_of_int (r c) * real_of_int brightness) / 255),
        g = Math_round ((real_of_int (g c) * real_of_int brightness) / 255),
        b = Math_round ((real_of_int (b c) * real_of_int brightness) / 255)\<rparr>"

text \<open>
  One turn of the loop over \<open>lightTimers\<close>: \<open>Some\<close> is a \<^verbatim>\<open>return res.json(...)\<close>,
  \<open>None\<close> goes on to the next timer.
\<close>

definition timerStep :: "int \<Rightarrow> int \<Rightarrow> timer \<Rightarrow> response option" where
  "timerStep nowMins brightness t =
     (let color = hexToRgb (color t)
      in if inFadeIn nowMins t then
           (let progress = js_divide (fadeInElapsed nowMins t) (fadeInDuration t)
            in Some (fadeJson color progress brightness))
         else if inPeak nowMins t then Some (peakJson color brightness)
         else if inFadeOut nowMins t then
           (let progress =
                  map_option (\<lambda>q. 1 - q)
                    (js_divide (fadeOutElapsed nowMins t) (fadeOutDuration t))
            in Some (fadeJson color progress brightness))
         else None)"

fun timerLoop :: "int \<Rightarrow> int \<Rightarrow> timer list \<Rightarrow> response" where
  "timerLoop nowMins brightness [] = Json_color_null"
| "timerLoop nowMins brightness (t # ts) =
     (case timerStep nowMins brightness t of
        Some res \<Rightarrow> res
      | None \<Rightarrow> timerLoop nowMins brightness ts)"

section \<open>The handlers, from the user lookup on\<close>

text \<open>
  \<open>user.settings.timers\<close>: \<open>lightTimers = None\<close> is a value for which
  \<^verbatim>\<open>Array.isArray\<close> is false (absent, null, not a list).
\<close>

record timers =
  lightTimerEnabled :: bool
  lightTimers :: "timer list option"

text \<open>
  \<open>user.settings\<close>: a brightness that is absent or null is \<open>None\<close>, a stored
  integer \<open>n\<close> is \<open>Some n\<close>; \<open>timers = None\<close> is a missing timers block.
\<close>

record settings =
  brightness :: "int option"
  timers :: "timers option"

text \<open>\<^verbatim>\<open>user.settings.brightness || 255\<close>: absent, null and 0 are falsy.\<close>

definition brightnessOrDefault :: "settings \<Rightarrow> int" where
  "brightnessOrDefault s =
     (case brightness s of None \<Rightarrow> 255 | Some n \<Rightarrow> if n = 0 then 255 else n)"

text \<open>
  The first variant of GET /api/auto-light, from the user lookup on: \<open>None\<close> is a
  user that was not found or has no settings.
\<close>

definition autoLight :: "settings option \<Rightarrow> date \<Rightarrow> response" where
  "autoLight user now =
     (case user of
        None \<Rightarrow> Status_404
      | Some s \<Rightarrow> Json_rgb (autoLightColor (fractionalHour now) (brightnessOrDefault s)))"

text \<open>GET /api/light-timer-color.\<close>

definition lightTimerColor :: "settings option \<Rightarrow> date \<Rightarrow> response" where
  "lightTimerColor user now =
     (case user of
        None \<Rightarrow> Status_404
      | Some s \<Rightarrow>
          (case timers s of
             None \<Rightarrow> Status_404
           | Some tm \<Rightarrow>
               (case (lightTimerEnabled tm, lightTimers tm) of
                  (True, Some ts) \<Rightarrow>
                    timerLoop (minutesSinceMidnight now) (brightnessOrDefault s) ts
                | _ \<Rightarrow> Json_color_null)))"

section \<open>Notions the properties are stated with\<close>

text \<open>The current time lies in one of the three phases of a timer.\<close>

definition inWindow :: "int \<Rightarrow> timer \<Rightarrow> bool" where
  "inWindow nowMins t = (inFadeIn nowMins t \<or> inPeak nowMins t \<or> inFadeOut nowMins t)"

text \<open>A stored time that denotes a minute of the day, as \<^verbatim>\<open>"HH:MM"\<close> does.\<close>

definition validTime :: "string \<Rightarrow> bool" where
  "validTime s = (case timeToMinutes s of None \<Rightarrow> False | Some m \<Rightarrow> 0 \<le> m \<and> m < 1440)"

definition validTimer :: "timer \<Rightarrow> bool" where
  "validTimer t =
     (validTime (fadeIn t) \<and> validTime (peakStart t) \<and> validTime (peakEnd t)
      \<and> validTime (fadeOut t))"

definition inRange :: "rgb \<Rightarrow> bool" where
  "inRange c = (0 \<le> r c \<and> r c \<le> 255 \<and> 0 \<le> g c \<and> g c \<le> 255 \<and> 0 \<le> b c \<and> b c \<le> 255)"

text \<open>Timers used as examples.\<close>

definition amberWindow :: timer where
  "amberWindow =
     \<lparr>fadeIn = ''06:00'', peakStart = ''07:00'', peakEnd = ''19:00'', fadeOut = ''20:00'',
      color = ''#FF9900''\<rparr>"

definition blueWindow :: timer where
  "blueWindow =
     \<lparr>fadeIn = ''05:00'', peakStart = ''06:15'', peakEnd = ''18:00'', fadeOut = ''21:00'',
      color = ''#0000FF''\<rparr>"

definition nightWindow :: timer where
  "nightWindow =
     \<lparr>fadeIn = ''22:00'', peakStart = ''23:00'', peakEnd = ''01:00'', fadeOut = ''02:00'',
      color = ''#FFFFFF''\<rparr>"

text \<open>A fade-in and a fade-out of no length, written with unequal strings.\<close>

definition earlyWindow :: timer where
  "earlyWindow =
     \<lparr>fadeIn = ''7:00'', peakStart = ''07:00'', peakEnd = ''19:00'', fadeOut = ''20:00'',
      color = ''#FF9900''\<rparr>"

definition abruptWindow :: timer where
  "abruptWindow =
     \<lparr>fadeIn = ''06:00'', peakStart = ''07:00'', peakEnd = ''19:00'', fadeOut = ''19:0'',
      color = ''#FF9900''\<rparr>"

text \<open>
  Stored times beyond the day: nothing checks a time when it is saved
  (\<^verbatim>\<open>POST /api/timers\<close> stores \<open>lightTimers\<close> as it comes).
\<close>

definition lateFadeInWindow :: timer where
  "lateFadeInWindow =
     \<lparr>fadeIn = ''48:00'', peakStart = ''48:00'', peakEnd = ''19:00'', fadeOut = ''20:00'',
      color = ''#FF9900''\<rparr>"

definition lateFadeOutWindow :: timer where
  "lateFadeOutWindow =
     \<lparr>fadeIn = ''06:00'', peakStart = ''07:00'', peakEnd = ''48:00'', fadeOut = ''48:00'',
      color = ''#FF9900''\<rparr>"

section \<open>Rounding and remainders\<close>


lemma Math_round_of_int [simp]: "Math_round (real_of_int n) = n"
  unfolding Math_round_def by linarith

lemma js_rem_nonneg: "0 \<le> a \<Longrightarrow> js_rem a 1440 = a mod 1440"
  by (cases "a = 0") (simp_all add: js_rem_def)

lemma cyclicDiff_day:
  assumes "0 \<le> a" "a < 1440" "0 \<le> c" "c < 1440"
  shows "cyclicDiff (Some a) (Some c) = Some ((a - c) mod 1440)"
proof -
  have "0 \<le> a - c + 1440" using assms by simp
  then have "js_rem (a - c + 1440) 1440 = (a - c + 1440) mod 1440"
    by (rule js_rem_nonneg)
  then show ?thesis by (simp add: cyclicDiff_def)
qed

lemma cyclicDiff_same: "cyclicDiff (Some a) (Some a) = Some 0"
  by (simp add: cyclicDiff_def js_rem_def)

lemma validTimeE:
  assumes "validTime s"
  obtains m where "timeToMinutes s = Some m" "0 \<le> m" "m < 1440"
  using assms by (auto simp: validTime_def split: option.splits)

lemma elapsed_not_below_zero:
  assumes "a \<le> 1440" "0 \<le> nowMins"
  shows "\<not> js_less (cyclicDiff (Some nowMins) (Some a)) (Some 0)"
proof -
  have "0 \<le> nowMins - a + 1440" using assms by simp
  then have "js_rem (nowMins - a + 1440) 1440 = (nowMins - a + 1440) mod 1440"
    by (rule js_rem_nonneg)
  then show ?thesis by (simp add: cyclicDiff_def js_less_def)
qed


section \<open>The night colour\<close>

lemma autoLightColor_night:
  "time < 6 \<or> 18 \<le> time \<Longrightarrow>
   autoLightColor time bri =
     \<lparr>r = Math_round (20 * real_of_int bri / 255),
      g = Math_round (20 * real_of_int bri / 255),
      b = Math_round (60 * real_of_int bri / 255)\<rparr>"
  by (auto simp: autoLightColor_def)





section \<open>Noon\<close>

lemma intensity_noon: "intensity 12 = 1"
  by (simp add: intensity_def)

lemma isCont_intensity: "isCont intensity t"
  unfolding intensity_def Let_def by (intro continuous_intros) simp_all

lemma isCont_sunriseToNoon: "isCont (\<lambda>t. sunriseToNoon (intensity t)) t"
  unfolding sunriseToNoon_def by (intro continuous_intros isCont_intensity)

lemma isCont_noonToSunset: "isCont (\<lambda>t. noonToSunset (intensity t)) t"
  unfolding noonToSunset_def by (intro continuous_intros isCont_intensity)

lemma branches_meet: "sunriseToNoon (intensity 12) = noonToSunset (intensity 12)"
  by (simp add: intensity_noon sunriseToNoon_def noonToSunset_def noonColor_def
      sunriseColor_def sunsetColor_def)

lemma daylightChannels_le:
  "daylightChannels =
     (\<lambda>t. if t \<le> 12 then sunriseToNoon (intensity t) else noonToSunset (intensity t))"
proof
  fix t :: real
  show "daylightChannels t =
          (if t \<le> 12 then sunriseToNoon (intensity t) else noonToSunset (intensity t))"
    using branches_meet by (cases "t = 12") (simp_all add: daylightChannels_def)
qed

lemma isCont_daylightChannels_noon: "isCont daylightChannels 12"
proof -
  have left: "continuous (at_left 12) (\<lambda>t. sunriseToNoon (intensity t))"
    using isCont_sunriseToNoon [of 12] by (rule continuous_at_imp_continuous_at_within)
  have "((\<lambda>t. noonToSunset (intensity t)) \<longlongrightarrow> noonToSunset (intensity 12)) (at_right 12)"
    using isCont_noonToSunset [of 12] unfolding isCont_def
    by (rule filterlim_mono [OF _ order_refl at_le]) simp
  then have right: "((\<lambda>t. noonToSunset (intensity t)) \<longlongrightarrow> sunriseToNoon (intensity 12)) (at_right 12)"
    by (simp add: branches_meet)
  show ?thesis
    unfolding daylightChannels_le using left right by (rule isCont_If_ge)
qed

text \<open>
  C3. At time 12 the intensity is sin 90 degrees = 1, both interpolation branches give
  the noon colour (255, 255, 255), and the handler returns it scaled by
  brightness / 255, which is the brightness itself in each channel. The curve before
  rounding is continuous at 12, where the branch changes.
\<close>

theorem noon_colour:
  "intensity 12 = 1
   \<and> sunriseToNoon (intensity 12) = (255, 255, 255)
   \<and> noonToSunset (intensity 12) = (255, 255, 255)
   \<and> daylightChannels 12 = (255, 255, 255)
   \<and> isCont daylightChannels 12
   \<and> autoLightColor 12 bri = \<lparr>r = bri, g = bri, b = bri\<rparr>
   \<and> autoLightColor 12 bri =
       \<lparr>r = Math_round (255 * real_of_int bri / 255),
        g = Math_round (255 * real_of_int bri / 255),
        b = Math_round (255 * real_of_int bri / 255)\<rparr>
   \<and> fractionalHour \<lparr>getHours = 12, getMinutes = 0\<rparr> = 12"
  by (simp add: intensity_noon sunriseToNoon_def noonToSunset_def daylightChannels_def
      autoLightColor_def noonColor_def sunriseColor_def sunsetColor_def fractionalHour_def
      isCont_daylightChannels_noon)

section \<open>The loop over the timers\<close>

lemma timerStep_None_iff: "timerStep nowMins bri t = None \<longleftrightarrow> \<not> inWindow nowMins t"
  by (simp add: timerStep_def inWindow_def Let_def)

lemma timerLoop_skip:
  "list_all (\<lambda>w. \<not> inWindow nowMins w) pre \<Longrightarrow>
   timerLoop nowMins bri (pre @ ts) = timerLoop nowMins bri ts"
  by (induction pre) (simp_all add: timerStep_None_iff [THEN iffD2])

text \<open>
  C2. The timers are tried in the stored order: when no timer before \<open>t\<close> has the
  current time in one of its phases and \<open>t\<close> has, the answer is the one \<open>t\<close>
  gives, whatever timers follow, overlapping or not.
\<close>

theorem first_match_wins:
  assumes "list_all (\<lambda>w. \<not> inWindow nowMins w) pre" and "inWindow nowMins t"
  shows "\<exists>res. timerStep nowMins bri t = Some res
           \<and> timerLoop nowMins bri (pre @ t # rest) = res"
proof -
  from assms(2) obtain res where res: "timerStep nowMins bri t = Some res"
    using timerStep_None_iff [of nowMins bri t] by (cases "timerStep nowMins bri t") auto
  have "timerLoop nowMins bri (pre @ t # rest) = timerLoop nowMins bri (t # rest)"
    using assms(1) by (rule timerLoop_skip)
  with res show ?thesis by simp
qed

theorem first_match_wins_witness:
  "list_all (\<lambda>w. \<not> inWindow 390 w) [nightWindow]
   \<and> inWindow 390 amberWindow \<and> inWindow 390 blueWindow
   \<and> timerStep 390 255 amberWindow = Some (Json_rgb \<lparr>r = 128, g = 77, b = 0\<rparr>)
   \<and> timerStep 390 255 blueWindow = Some (Json_rgb \<lparr>r = 0, g = 0, b = 255\<rparr>)
   \<and> timerLoop 390 255 ([nightWindow] @ amberWindow # [blueWindow])
       = Json_rgb \<lparr>r = 128, g = 77, b = 0\<rparr>"
proof -
  have pre: "list_all (\<lambda>w. \<not> inWindow 390 w) [nightWindow]" by code_simp
  have amber: "inWindow 390 amberWindow" by code_simp
  have blue: "inWindow 390 blueWindow" by code_simp
  have sa: "timerStep 390 255 amberWindow = Some (Json_rgb \<lparr>r = 128, g = 77, b = 0\<rparr>)"
    by code_simp
  have sb: "timerStep 390 255 blueWindow = Some (Json_rgb \<lparr>r = 0, g = 0, b = 255\<rparr>)"
    by code_simp
  from first_match_wins [OF pre amber, of 255 "[blueWindow]"] sa
  have "timerLoop 390 255 ([nightWindow] @ amberWindow # [blueWindow])
          = Json_rgb \<lparr>r = 128, g = 77, b = 0\<rparr>"
    by auto
  with pre amber blue sa sb show ?thesis by blast
qed

text \<open>
  C7. The timer 06:00, 07:00, 19:00, 20:00 of colour #FF9900, that is (255, 153, 0),
  at brightness 255: half of the fade-in at 06:30 gives (128, 77, 0), the peak at 12:00
  gives (255, 153, 0), half of the fade-out at 19:30 gives (128, 77, 0).
\<close>

theorem roundtrip_amber:
  "hexToRgb ''#FF9900'' = \<lparr>r = 255, g = 153, b = 0\<rparr>
   \<and> timerLoop 390 255 [amberWindow] = Json_rgb \<lparr>r = 128, g = 77, b = 0\<rparr>
   \<and> timerLoop 720 255 [amberWindow] = Json_rgb \<lparr>r = 255, g = 153, b = 0\<rparr>
   \<and> timerLoop 1170 255 [amberWindow] = Json_rgb \<lparr>r = 128, g = 77, b = 0\<rparr>
   \<and> lightTimerColor
         (Some \<lparr>brightness = Some 255,
                timers = Some \<lparr>lightTimerEnabled = True, lightTimers = Some [amberWindow]\<rparr>\<rparr>)
         \<lparr>getHours = 6, getMinutes = 30\<rparr>
       = Json_rgb \<lparr>r = 128, g = 77, b = 0\<rparr>"
  by code_simp

text \<open>
  C5. With a peak from 22:00 to 02:00 the peak test holds at 23:00 (minute 1380) and at
  01:00 (minute 60) and fails at 12:00 (minute 720). On two parsed times the test is
  (peakStart <= peakEnd and peakStart <= now < peakEnd) or
  (peakStart > peakEnd and (now >= peakStart or now < peakEnd)).
\<close>

theorem peak_over_midnight:
  "inPeak 1380 (t\<lparr>peakStart := ''22:00'', peakEnd := ''02:00''\<rparr>)
   \<and> inPeak 60 (t\<lparr>peakStart := ''22:00'', peakEnd := ''02:00''\<rparr>)
   \<and> \<not> inPeak 720 (t\<lparr>peakStart := ''22:00'', peakEnd := ''02:00''\<rparr>)
   \<and> inPeak nowMins w =
       (case (timeToMinutes (peakStart w), timeToMinutes (peakEnd w)) of
          (Some ps, Some pe) \<Rightarrow>
            (ps \<le> pe \<and> ps \<le> nowMins \<and> nowMins < pe)
            \<or> (ps > pe \<and> (nowMins \<ge> ps \<or> nowMins < pe))
        | _ \<Rightarrow> False)"
proof -
  have a: "timeToMinutes ''22:00'' = Some 1320" by code_simp
  have b: "timeToMinutes ''02:00'' = Some 120" by code_simp
  show ?thesis
    by (simp add: inPeak_def a b js_le_def js_less_def Let_def split: option.splits)
qed

section \<open>Short circuits and the default brightness\<close>

text \<open>
  C6. When the timer is not enabled, or the list of timers is absent or empty, the
  handler answers \<^verbatim>\<open>{ color: null }\<close>, at every time and for every brightness.
\<close>

theorem no_colour_when_off:
  assumes "\<not> lightTimerEnabled tm \<or> lightTimers tm = None \<or> lightTimers tm = Some []"
  shows "lightTimerColor (Some (s\<lparr>timers := Some tm\<rparr>)) now = Json_color_null
         \<and> timerLoop nowMins bri [] = Json_color_null"
  using assms by (auto simp: lightTimerColor_def split: option.splits bool.splits)

theorem no_colour_when_off_witness:
  "lightTimerColor
     (Some \<lparr>brightness = Some 200,
            timers = Some \<lparr>lightTimerEnabled = False, lightTimers = Some [amberWindow]\<rparr>\<rparr>)
     \<lparr>getHours = 12, getMinutes = 0\<rparr> = Json_color_null
   \<and> lightTimerColor
     (Some \<lparr>brightness = Some 200,
            timers = Some \<lparr>lightTimerEnabled = True, lightTimers = None\<rparr>\<rparr>)
     \<lparr>getHours = 12, getMinutes = 0\<rparr> = Json_color_null
   \<and> lightTimerColor
     (Some \<lparr>brightness = Some 200,
            timers = Some \<lparr>lightTimerEnabled = True, lightTimers = Some []\<rparr>\<rparr>)
     \<lparr>getHours = 12, getMinutes = 0\<rparr> = Json_color_null"
  using
    no_colour_when_off [of "\<lparr>lightTimerEnabled = False, lightTimers = Some [amberWindow]\<rparr>"
      "\<lparr>brightness = Some 200, timers = None\<rparr>" "\<lparr>getHours = 12, getMinutes = 0\<rparr>"]
    no_colour_when_off [of "\<lparr>lightTimerEnabled = True, lightTimers = None\<rparr>"
      "\<lparr>brightness = Some 200, timers = None\<rparr>" "\<lparr>getHours = 12, getMinutes = 0\<rparr>"]
    no_colour_when_off [of "\<lparr>lightTimerEnabled = True, lightTimers = Some []\<rparr>"
      "\<lparr>brightness = Some 200, timers = None\<rparr>" "\<lparr>getHours = 12, getMinutes = 0\<rparr>"]
  by simp

text \<open>
  C9. A stored brightness that is absent, null or 0 is replaced by 255 in both handlers:
  the daylight colour and the timer colour are the ones computed with brightness 255.
  With a stored 0 the answer is the full colour, not black.
\<close>

theorem falsy_brightness_is_255:
  assumes "brightness s = None \<or> brightness s = Some 0"
  shows "brightnessOrDefault s = 255
         \<and> autoLight (Some s) now = Json_rgb (autoLightColor (fractionalHour now) 255)
         \<and> lightTimerColor (Some s) now =
             lightTimerColor (Some (s\<lparr>brightness := Some 255\<rparr>)) now
         \<and> lightTimerColor (Some (s\<lparr>timers :=
               Some \<lparr>lightTimerEnabled = True, lightTimers = Some ts\<rparr>\<rparr>)) now =
             timerLoop (minutesSinceMidnight now) 255 ts"
  using assms by (auto simp: brightnessOrDefault_def autoLight_def lightTimerColor_def
      split: option.splits bool.splits)

theorem falsy_brightness_is_255_witness:
  "autoLight (Some \<lparr>brightness = Some 0, timers = None\<rparr>) \<lparr>getHours = 23, getMinutes = 0\<rparr>
     = Json_rgb \<lparr>r = 20, g = 20, b = 60\<rparr>
   \<and> autoLight (Some \<lparr>brightness = None, timers = None\<rparr>) \<lparr>getHours = 12, getMinutes = 0\<rparr>
     = Json_rgb \<lparr>r = 255, g = 255, b = 255\<rparr>
   \<and> lightTimerColor
       (Some \<lparr>brightness = Some 0,
              timers = Some \<lparr>lightTimerEnabled = True, lightTimers = Some [amberWindow]\<rparr>\<rparr>)
       \<lparr>getHours = 12, getMinutes = 0\<rparr>
     = Json_rgb \<lparr>r = 255, g = 153, b = 0\<rparr>"
proof -
  have peak: "timerLoop 720 255 [amberWindow] = Json_rgb \<lparr>r = 255, g = 153, b = 0\<rparr>"
    by code_simp
  have noon: "autoLightColor 12 255 = \<lparr>r = 255, g = 255, b = 255\<rparr>"
    by (simp add: autoLightColor_def daylightChannels_def intensity_noon noonToSunset_def
        noonColor_def sunsetColor_def Math_round_def)
  have night: "autoLightColor 23 255 = \<lparr>r = 20, g = 20, b = 60\<rparr>"
    by (simp add: autoLightColor_def Math_round_def)
  show ?thesis
    using
      falsy_brightness_is_255 [of "\<lparr>brightness = Some 0, timers = None\<rparr>"
        "\<lparr>getHours = 23, getMinutes = 0\<rparr>" "[]"]
      falsy_brightness_is_255 [of "\<lparr>brightness = None, timers = None\<rparr>"
        "\<lparr>getHours = 12, getMinutes = 0\<rparr>" "[]"]
      falsy_brightness_is_255 [of "\<lparr>brightness = Some 0, timers = None\<rparr>"
        "\<lparr>getHours = 12, getMinutes = 0\<rparr>" "[amberWindow]"]
    by (simp add: fractionalHour_def minutesSinceMidnight_def peak noon night
        del: timerLoop.simps)
qed

section \<open>Fades of no length\<close>

text \<open>
  C4 (as amended). For a timer whose fade-in start and peak start parse to the same
  number of minutes, at most 1440, and for every current minute from 0 on: the fade-in
  lasts 0 minutes, the elapsed time is not below it, so the fade-in branch is not taken
  and its quotient by 0 is never computed; the turn of the loop goes on with the peak
  test and the fade-out test.
\<close>

theorem zero_fade_in_skipped:
  assumes "timeToMinutes (fadeIn t) = Some a" and "timeToMinutes (peakStart t) = Some a"
    and "a \<le> 1440" and "0 \<le> nowMins"
  shows "fadeInDuration t = Some 0
         \<and> \<not> inFadeIn nowMins t
         \<and> js_divide (fadeInElapsed nowMins t) (fadeInDuration t) = None
         \<and> timerStep nowMins bri t =
             (if inPeak nowMins t then Some (peakJson (hexToRgb (color t)) bri)
              else if inFadeOut nowMins t then
                Some (fadeJson (hexToRgb (color t))
                        (map_option (\<lambda>q. 1 - q)
                           (js_divide (fadeOutElapsed nowMins t) (fadeOutDuration t)))
                        bri)
              else None)"
proof -
  have dur: "fadeInDuration t = Some 0"
    using assms(1,2) by (simp add: fadeInDuration_def cyclicDiff_same)
  have skip: "\<not> inFadeIn nowMins t"
    unfolding inFadeIn_def fadeInElapsed_def dur assms(1)
    using assms(3,4) by (rule elapsed_not_below_zero)
  have div: "js_divide (fadeInElapsed nowMins t) (fadeInDuration t) = None"
    by (simp add: dur js_divide_def split: option.splits)
  have step: "timerStep nowMins bri t =
             (if inPeak nowMins t then Some (peakJson (hexToRgb (color t)) bri)
              else if inFadeOut nowMins t then
                Some (fadeJson (hexToRgb (color t))
                        (map_option (\<lambda>q. 1 - q)
                           (js_divide (fadeOutElapsed nowMins t) (fadeOutDuration t)))
                        bri)
              else None)"
    using skip by (simp add: timerStep_def Let_def)
  from dur skip div step show ?thesis by blast
qed

theorem zero_fade_in_skipped_witness:
  "timeToMinutes (fadeIn earlyWindow) = Some 420
   \<and> timeToMinutes (peakStart earlyWindow) = Some 420
   \<and> fadeIn earlyWindow \<noteq> peakStart earlyWindow
   \<and> \<not> inFadeIn 420 earlyWindow
   \<and> inPeak 420 earlyWindow
   \<and> timerStep 420 255 earlyWindow = Some (Json_rgb \<lparr>r = 255, g = 153, b = 0\<rparr>)"
proof -
  have fi: "timeToMinutes (fadeIn earlyWindow) = Some 420" by code_simp
  have ps: "timeToMinutes (peakStart earlyWindow) = Some 420" by code_simp
  have ne: "fadeIn earlyWindow \<noteq> peakStart earlyWindow" by (simp add: earlyWindow_def)
  have peak: "inPeak 420 earlyWindow" by code_simp
  have json: "peakJson (hexToRgb (color earlyWindow)) 255
                = Json_rgb \<lparr>r = 255, g = 153, b = 0\<rparr>"
    by code_simp
  from zero_fade_in_skipped [OF fi ps, of 420 255] peak json
  have "\<not> inFadeIn 420 earlyWindow
        \<and> timerStep 420 255 earlyWindow = Some (Json_rgb \<lparr>r = 255, g = 153, b = 0\<rparr>)"
    by simp
  with fi ps ne peak show ?thesis by blast
qed

text \<open>
  C4 as stated fails for a stored time beyond the day: with fade-in start and peak start
  both 48:00, at 01:00 the elapsed time is -1380, below the duration 0; the fade-in
  branch is taken, divides by 0, and every channel of the answer is not finite.
\<close>

theorem fade_in_divides_by_zero:
  "fadeIn lateFadeInWindow = peakStart lateFadeInWindow
   \<and> timeToMinutes (fadeIn lateFadeInWindow) = Some 2880
   \<and> fadeInDuration lateFadeInWindow = Some 0
   \<and> fadeInElapsed 60 lateFadeInWindow = Some (- 1380)
   \<and> inFadeIn 60 lateFadeInWindow
   \<and> js_divide (fadeInElapsed 60 lateFadeInWindow) (fadeInDuration lateFadeInWindow) = None
   \<and> timerStep 60 255 lateFadeInWindow = Some Json_not_finite"
  by code_simp

text \<open>
  C10 (as amended). For a timer whose peak end and fade-out end parse to the same number
  of minutes, at most 1440, and for every current minute from 0 on: the fade-out lasts
  0 minutes, the fade-out branch is not taken and its quotient by 0 is never computed; a
  time outside the fade-in and the peak gives no match for this timer.
\<close>

theorem zero_fade_out_skipped:
  assumes "timeToMinutes (peakEnd t) = Some a" and "timeToMinutes (fadeOut t) = Some a"
    and "a \<le> 1440" and "0 \<le> nowMins"
  shows "fadeOutDuration t = Some 0
         \<and> \<not> inFadeOut nowMins t
         \<and> js_divide (fadeOutElapsed nowMins t) (fadeOutDuration t) = None
         \<and> timerStep nowMins bri t =
             (if inFadeIn nowMins t then
                Some (fadeJson (hexToRgb (color t))
                        (js_divide (fadeInElapsed nowMins t) (fadeInDuration t)) bri)
              else if inPeak nowMins t then Some (peakJson (hexToRgb (color t)) bri)
              else None)"
proof -
  have dur: "fadeOutDuration t = Some 0"
    using assms(1,2) by (simp add: fadeOutDuration_def cyclicDiff_same)
  have skip: "\<not> inFadeOut nowMins t"
    unfolding inFadeOut_def fadeOutElapsed_def dur assms(1)
    using assms(3,4) by (rule elapsed_not_below_zero)
  have div: "js_divide (fadeOutElapsed nowMins t) (fadeOutDuration t) = None"
    by (simp add: dur js_divide_def split: option.splits)
  have step: "timerStep nowMins bri t =
             (if inFadeIn nowMins t then
                Some (fadeJson (hexToRgb (color t))
                        (js_divide (fadeInElapsed nowMins t) (fadeInDuration t)) bri)
              else if inPeak nowMins t then Some (peakJson (hexToRgb (color t)) bri)
              else None)"
    using skip by (simp add: timerStep_def Let_def)
  from dur skip div step show ?thesis by blast
qed

theorem zero_fade_out_skipped_witness:
  "timeToMinutes (peakEnd abruptWindow) = Some 1140
   \<and> timeToMinutes (fadeOut abruptWindow) = Some 1140
   \<and> peakEnd abruptWindow \<noteq> fadeOut abruptWindow
   \<and> \<not> inFadeOut 1140 abruptWindow
   \<and> timerStep 1140 255 abruptWindow = None"
proof -
  have pe: "timeToMinutes (peakEnd abruptWindow) = Some 1140" by code_simp
  have fo: "timeToMinutes (fadeOut abruptWindow) = Some 1140" by code_simp
  have ne: "peakEnd abruptWindow \<noteq> fadeOut abruptWindow" by (simp add: abruptWindow_def)
  have fade: "\<not> inFadeIn 1140 abruptWindow" by code_simp
  have peak: "\<not> inPeak 1140 abruptWindow" by code_simp
  from zero_fade_out_skipped [OF pe fo, of 1140 255] fade peak
  have "\<not> inFadeOut 1140 abruptWindow \<and> timerStep 1140 255 abruptWindow = None"
    by simp
  with pe fo ne show ?thesis by blast
qed

text \<open>
  C10 as stated fails for a stored time beyond the day: with peak end and fade-out end
  both 48:00, at 01:00 the time is outside the fade-in and the peak, the elapsed time is
  -1380, below the duration 0; the fade-out branch is taken, divides by 0, and every
  channel of the answer is not finite.
\<close>

theorem fade_out_divides_by_zero:
  "peakEnd lateFadeOutWindow = fadeOut lateFadeOutWindow
   \<and> timeToMinutes (peakEnd lateFadeOutWindow) = Some 2880
   \<and> fadeOutDuration lateFadeOutWindow = Some 0
   \<and> fadeOutElapsed 60 lateFadeOutWindow = Some (- 1380)
   \<and> \<not> inFadeIn 60 lateFadeOutWindow
   \<and> \<not> inPeak 60 lateFadeOutWindow
   \<and> inFadeOut 60 lateFadeOutWindow
   \<and> js_divide (fadeOutElapsed 60 lateFadeOutWindow) (fadeOutDuration lateFadeOutWindow) = None
   \<and> timerStep 60 255 lateFadeOutWindow = Some Json_not_finite"
  by code_simp

section \<open>Stored times of the form HH:MM\<close>

lemma isDigit_not_colon: "isDigit c \<Longrightarrow> c \<noteq> CHR '':''"
  by (auto simp: isDigit_def)

lemma timeToMinutes_HHMM:
  assumes "isDigit h1" "isDigit h2" "isDigit m1" "isDigit m2"
  shows "timeToMinutes [h1, h2, CHR '':'', m1, m2] =
           Some ((10 * (int (of_char h1) - 48) + (int (of_char h2) - 48)) * 60
                 + (10 * (int (of_char m1) - 48) + (int (of_char m2) - 48)))"
  using assms by (simp add: timeToMinutes_def Number_def isDigit_not_colon)

lemma validTime_HHMM:
  assumes "isDigit h1" "isDigit h2" "isDigit m1" "isDigit m2"
    and "10 * (int (of_char h1) - 48) + (int (of_char h2) - 48) < 24"
    and "10 * (int (of_char m1) - 48) + (int (of_char m2) - 48) < 60"
  shows "validTime [h1, h2, CHR '':'', m1, m2]"
proof -
  have d: "0 \<le> int (of_char c) - 48" if "isDigit c" for c
    using that by (simp add: isDigit_def)
  show ?thesis
    unfolding validTime_def timeToMinutes_HHMM [OF assms(1-4)]
    using assms(5,6) d [OF assms(1)] d [OF assms(2)] d [OF assms(3)] d [OF assms(4)]
    by simp
qed

section \<open>Channels stay between 0 and 255\<close>

lemma and255_range: "0 \<le> sint ((w :: 32 word) AND 255) \<and> sint (w AND 255) \<le> 255"
proof -
  have le: "uint (w AND 255) \<le> 255"
    using word_and_le1 [of w 255] by (simp add: word_le_def)
  have ge: "0 \<le> uint (w AND 255)" by simp
  have "sint (w AND 255) = signed_take_bit 31 (uint (w AND 255))"
    by (simp add: sint_uint)
  also have "\<dots> = uint (w AND 255)"
  proof (rule signed_take_bit_int_eq_self)
    have "- (2 ^ 31) \<le> (0 :: int)" by simp
    also have "0 \<le> uint (w AND 255)" by simp
    finally show "- (2 ^ 31) \<le> uint (w AND 255)" .
    show "uint (w AND 255) < 2 ^ 31" using le by simp
  qed
  finally show ?thesis using le ge by simp
qed

lemma shiftRightAnd255_range: "0 \<le> shiftRightAnd255 x k \<and> shiftRightAnd255 x k \<le> 255"
  unfolding shiftRightAnd255_def Let_def by (rule and255_range)

lemma hexToRgb_inRange: "inRange (hexToRgb hex)"
  by (simp add: hexToRgb_def inRange_def Let_def shiftRightAnd255_range)

lemma Math_round_scaled:
  assumes "0 \<le> x" "x \<le> 255" "0 \<le> bri" "bri \<le> 255"
  shows "0 \<le> Math_round ((x * real_of_int bri) / 255)
         \<and> Math_round ((x * real_of_int bri) / 255) \<le> 255"
proof -
  let ?y = "(x * real_of_int bri) / 255"
  have y0: "0 \<le> ?y" using assms by simp
  have "x * real_of_int bri \<le> 255 * 255"
    using assms by (intro mult_mono) simp_all
  then have y1: "?y \<le> 255" by simp
  show ?thesis unfolding Math_round_def using y0 y1 by (simp add: floor_le_iff le_floor_iff)
qed

lemma fadeJson_inRange:
  assumes "inRange c" "0 \<le> p" "p \<le> 1" "0 \<le> bri" "bri \<le> 255"
  shows "\<exists>c'. fadeJson c (Some p) bri = Json_rgb c' \<and> inRange c'"
proof -
  have ch: "0 \<le> real_of_int k * p \<and> real_of_int k * p \<le> 255" if "0 \<le> k" "k \<le> 255" for k
  proof -
    have "real_of_int k * p \<le> 255 * 1"
      using that assms(2,3) by (intro mult_mono) simp_all
    then show ?thesis using that assms(2) by simp
  qed
  have "0 \<le> Math_round ((real_of_int k * p * real_of_int bri) / 255)
        \<and> Math_round ((real_of_int k * p * real_of_int bri) / 255) \<le> 255"
    if "0 \<le> k" "k \<le> 255" for k
    using ch [OF that] assms(4,5) by (intro Math_round_scaled) simp_all
  then show ?thesis
    using assms(1) by (simp add: fadeJson_def inRange_def)
qed

lemma peakJson_inRange:
  assumes "inRange c" "0 \<le> bri" "bri \<le> 255"
  shows "\<exists>c'. peakJson c bri = Json_rgb c' \<and> inRange c'"
proof -
  have "0 \<le> Math_round ((real_of_int k * real_of_int bri) / 255)
        \<and> Math_round ((real_of_int k * real_of_int bri) / 255) \<le> 255"
    if "0 \<le> k" "k \<le> 255" for k
    using that assms(2,3) by (intro Math_round_scaled) simp_all
  then show ?thesis
    using assms(1) by (simp add: peakJson_def inRange_def)
qed

text \<open>Inside a fade between two valid times the quotient elapsed / duration lies in [0, 1].\<close>

lemma fade_quotient:
  assumes "validTime start" "validTime stop" "0 \<le> nowMins" "nowMins < 1440"
    and "js_less (cyclicDiff (Some nowMins) (timeToMinutes start))
           (cyclicDiff (timeToMinutes stop) (timeToMinutes start))"
  shows "\<exists>q. js_divide (cyclicDiff (Some nowMins) (timeToMinutes start))
                (cyclicDiff (timeToMinutes stop) (timeToMinutes start)) = Some q
             \<and> 0 \<le> q \<and> q \<le> 1"
proof -
  from assms(1) obtain a where a: "timeToMinutes start = Some a" "0 \<le> a" "a < 1440"
    by (rule validTimeE)
  from assms(2) obtain z where z: "timeToMinutes stop = Some z" "0 \<le> z" "z < 1440"
    by (rule validTimeE)
  define e where "e = (nowMins - a) mod 1440"
  define d where "d = (z - a) mod 1440"
  have el: "cyclicDiff (Some nowMins) (timeToMinutes start) = Some e"
    unfolding a(1) e_def using assms(3,4) a(2,3) by (rule cyclicDiff_day)
  have du: "cyclicDiff (timeToMinutes stop) (timeToMinutes start) = Some d"
    unfolding a(1) z(1) d_def using z(2,3) a(2,3) by (rule cyclicDiff_day)
  have e0: "0 \<le> e" by (simp add: e_def)
  have ed: "e < d" using assms(5) by (simp add: el du js_less_def)
  have q: "js_divide (Some e) (Some d) = Some (real_of_int e / real_of_int d)"
    using e0 ed by (simp add: js_divide_def)
  have "0 \<le> real_of_int e / real_of_int d \<and> real_of_int e / real_of_int d \<le> 1"
    using e0 ed by simp
  with q show ?thesis by (simp add: el du)
qed

lemma timerStep_inRange:
  assumes "validTimer t" "0 \<le> nowMins" "nowMins < 1440" "0 \<le> bri" "bri \<le> 255"
    and "timerStep nowMins bri t = Some res"
  shows "\<exists>c. res = Json_rgb c \<and> inRange c"
proof -
  note col = hexToRgb_inRange [of "color t"]
  consider (fin) "inFadeIn nowMins t"
    | (peak) "\<not> inFadeIn nowMins t" "inPeak nowMins t"
    | (fout) "\<not> inFadeIn nowMins t" "\<not> inPeak nowMins t" "inFadeOut nowMins t"
    | (none) "\<not> inFadeIn nowMins t" "\<not> inPeak nowMins t" "\<not> inFadeOut nowMins t"
    by blast
  then show ?thesis
  proof cases
    case fin
    have "\<exists>q. js_divide (fadeInElapsed nowMins t) (fadeInDuration t) = Some q \<and> 0 \<le> q \<and> q \<le> 1"
      unfolding fadeInElapsed_def fadeInDuration_def
      using assms(1-3) fin
      by (intro fade_quotient) (simp_all add: validTimer_def inFadeIn_def fadeInElapsed_def
          fadeInDuration_def)
    then obtain q where q: "js_divide (fadeInElapsed nowMins t) (fadeInDuration t) = Some q"
      "0 \<le> q" "q \<le> 1" by blast
    have res: "res = fadeJson (hexToRgb (color t)) (Some q) bri"
      using assms(6) fin q(1) by (simp add: timerStep_def Let_def)
    show ?thesis unfolding res
      using fadeJson_inRange [OF col q(2,3) assms(4,5)] by metis
  next
    case peak
    have res: "res = peakJson (hexToRgb (color t)) bri"
      using assms(6) peak by (simp add: timerStep_def Let_def)
    show ?thesis unfolding res
      using peakJson_inRange [OF col assms(4,5)] by metis
  next
    case fout
    have "\<exists>q. js_divide (fadeOutElapsed nowMins t) (fadeOutDuration t) = Some q \<and> 0 \<le> q \<and> q \<le> 1"
      unfolding fadeOutElapsed_def fadeOutDuration_def
      using assms(1-3) fout(3)
      by (intro fade_quotient) (simp_all add: validTimer_def inFadeOut_def fadeOutElapsed_def
          fadeOutDuration_def)
    then obtain q where q: "js_divide (fadeOutElapsed nowMins t) (fadeOutDuration t) = Some q"
      "0 \<le> q" "q \<le> 1" by blast
    have res: "res = fadeJson (hexToRgb (color t)) (Some (1 - q)) bri"
      using assms(6) fout q(1) by (simp add: timerStep_def Let_def)
    have "0 \<le> 1 - q" "1 - q \<le> 1" using q(2,3) by simp_all
    then show ?thesis unfolding res
      using fadeJson_inRange [OF col _ _ assms(4,5), of "1 - q"] by metis
  next
    case none
    then show ?thesis using assms(6) by (simp add: timerStep_def Let_def)
  qed
qed

lemma timerLoop_inRange:
  assumes "0 \<le> nowMins" "nowMins < 1440" "0 \<le> bri" "bri \<le> 255"
  shows "list_all validTimer ts \<Longrightarrow>
         timerLoop nowMins bri ts = Json_color_null
         \<or> (\<exists>c. timerLoop nowMins bri ts = Json_rgb c \<and> inRange c)"
proof (induction ts)
  case Nil
  then show ?case by simp
next
  case (Cons t ts)
  show ?case
  proof (cases "timerStep nowMins bri t")
    case None
    then show ?thesis using Cons by simp
  next
    case (Some res)
    have "validTimer t" using Cons.prems by simp
    from timerStep_inRange [OF this assms Some] Some show ?thesis by simp
  qed
qed

lemma intensity_range:
  assumes "6 \<le> time" "time < 18"
  shows "0 \<le> intensity time \<and> intensity time \<le> 1"
proof -
  have "(((time - 6) / 12) * 180 * pi) / 180 = (time - 6) * pi / 12"
    by (simp add: field_simps)
  then have eq: "intensity time = sin ((time - 6) * pi / 12)"
    unfolding intensity_def Let_def by (rule arg_cong)
  have "0 \<le> (time - 6) * pi / 12" using assms by simp
  moreover have "(time - 6) * pi / 12 \<le> pi"
  proof -
    have "(time - 6) * pi \<le> 12 * pi"
      using assms by (intro mult_right_mono) simp_all
    then show ?thesis by simp
  qed
  ultimately have "0 \<le> sin ((time - 6) * pi / 12)" by (rule sin_ge_zero)
  then show ?thesis by (simp add: eq)
qed

lemma sunriseToNoon_between:
  assumes "0 \<le> i" "i \<le> 1"
  shows "case sunriseToNoon i of (cr, cg, cb) \<Rightarrow>
           cr = 255 \<and> 150 \<le> cg \<and> cg \<le> 255 \<and> 50 \<le> cb \<and> cb \<le> 255"
  using assms by (simp add: sunriseToNoon_def sunriseColor_def noonColor_def)

lemma noonToSunset_between:
  assumes "0 \<le> i" "i \<le> 1"
  shows "case noonToSunset i of (cr, cg, cb) \<Rightarrow>
           cr = 255 \<and> 100 \<le> cg \<and> cg \<le> 255 \<and> 100 \<le> cb \<and> cb \<le> 255"
  using assms by (simp add: noonToSunset_def sunsetColor_def noonColor_def)


lemma Math_round_range:
  assumes "0 \<le> x" "x \<le> 255"
  shows "0 \<le> Math_round x \<and> Math_round x \<le> 255"
  unfolding Math_round_def using assms by (simp add: floor_le_iff le_floor_iff)

lemma daylightChannels_range:
  assumes "6 \<le> time" "time < 18"
  shows "case daylightChannels time of (cr, cg, cb) \<Rightarrow>
           0 \<le> cr \<and> cr \<le> 255 \<and> 0 \<le> cg \<and> cg \<le> 255 \<and> 0 \<le> cb \<and> cb \<le> 255"
proof -
  note i = intensity_range [OF assms]
  show ?thesis
  proof (cases "time < 12")
    case True
    with sunriseToNoon_between [of "intensity time"] i show ?thesis
      by (auto simp: daylightChannels_def)
  next
    case False
    with noonToSunset_between [of "intensity time"] i show ?thesis
      by (auto simp: daylightChannels_def)
  qed
qed

lemma autoLightColor_inRange:
  assumes "0 \<le> bri" "bri \<le> 255"
  shows "inRange (autoLightColor time bri)"
proof (cases "time < 6 \<or> 18 \<le> time")
  case True
  have "0 \<le> Math_round ((20 * real_of_int bri) / 255)
        \<and> Math_round ((20 * real_of_int bri) / 255) \<le> 255"
    using assms by (intro Math_round_scaled) simp_all
  moreover have "0 \<le> Math_round ((60 * real_of_int bri) / 255)
        \<and> Math_round ((60 * real_of_int bri) / 255) \<le> 255"
    using assms by (intro Math_round_scaled) simp_all
  ultimately show ?thesis
    using True by (simp add: autoLightColor_night inRange_def)
next
  case False
  then have day: "6 \<le> time" "time < 18" by simp_all
  obtain cr cg cb where ch: "daylightChannels time = (cr, cg, cb)"
    by (cases "daylightChannels time") auto
  from daylightChannels_range [OF day] ch
  have rng: "0 \<le> cr" "cr \<le> 255" "0 \<le> cg" "cg \<le> 255" "0 \<le> cb" "cb \<le> 255"
    by simp_all
  have "0 \<le> Math_round ((x * real_of_int bri) / 255)
        \<and> Math_round ((x * real_of_int bri) / 255) \<le> 255" if "0 \<le> x" "x \<le> 255" for x
    using that assms by (rule Math_round_scaled)
  with rng show ?thesis
    using False by (simp add: autoLightColor_def ch inRange_def)
qed

lemma autoLightColor2_inRange: "inRange (autoLightColor2 time)"
proof (cases "time < 6 \<or> 18 \<le> time")
  case True
  then show ?thesis by (auto simp: autoLightColor2_def inRange_def)
next
  case False
  then have day: "6 \<le> time" "time < 18" by simp_all
  obtain cr cg cb where ch: "daylightChannels time = (cr, cg, cb)"
    by (cases "daylightChannels time") auto
  from daylightChannels_range [OF day] ch
  have rng: "0 \<le> cr" "cr \<le> 255" "0 \<le> cg" "cg \<le> 255" "0 \<le> cb" "cb \<le> 255"
    by simp_all
  then show ?thesis
    using False Math_round_range by (simp add: autoLightColor2_def ch inRange_def)
qed

text \<open>
  C8. For a brightness between 0 and 255, every colour of the daylight handler (both
  variants) has its three channels between 0 and 255, and the interpolation stays
  between the two colours it joins; for a current minute of the day and timers whose
  four times are valid, the timer loop answers \<^verbatim>\<open>{ color: null }\<close> or a colour with its
  three channels between 0 and 255, whatever the colour strings are. Channels are
  integers by their type.
\<close>

theorem channels_in_range:
  assumes "0 \<le> bri" and "bri \<le> 255"
  shows "inRange (autoLightColor time bri)
         \<and> inRange (autoLightColor2 time)
         \<and> (6 \<le> time \<and> time < 12 \<longrightarrow>
              (case daylightChannels time of (cr, cg, cb) \<Rightarrow>
                 cr = 255 \<and> 150 \<le> cg \<and> cg \<le> 255 \<and> 50 \<le> cb \<and> cb \<le> 255))
         \<and> (12 \<le> time \<and> time < 18 \<longrightarrow>
              (case daylightChannels time of (cr, cg, cb) \<Rightarrow>
                 cr = 255 \<and> 100 \<le> cg \<and> cg \<le> 255 \<and> 100 \<le> cb \<and> cb \<le> 255))
         \<and> (0 \<le> nowMins \<and> nowMins < 1440 \<and> list_all validTimer ts \<longrightarrow>
              timerLoop nowMins bri ts = Json_color_null
              \<or> (\<exists>c. timerLoop nowMins bri ts = Json_rgb c \<and> inRange c))"
proof -
  have a: "inRange (autoLightColor time bri)"
    using assms by (rule autoLightColor_inRange)
  have b: "inRange (autoLightColor2 time)"
    by (rule autoLightColor2_inRange)
  have c: "case daylightChannels time of (cr, cg, cb) \<Rightarrow>
                 cr = 255 \<and> 150 \<le> cg \<and> cg \<le> 255 \<and> 50 \<le> cb \<and> cb \<le> 255"
    if "6 \<le> time \<and> time < 12"
    using that sunriseToNoon_between [of "intensity time"] intensity_range [of time]
    by (simp add: daylightChannels_def)
  have d: "case daylightChannels time of (cr, cg, cb) \<Rightarrow>
                 cr = 255 \<and> 100 \<le> cg \<and> cg \<le> 255 \<and> 100 \<le> cb \<and> cb \<le> 255"
    if "12 \<le> time \<and> time < 18"
    using that noonToSunset_between [of "intensity time"] intensity_range [of time]
    by (simp add: daylightChannels_def)
  have e: "timerLoop nowMins bri ts = Json_color_null
              \<or> (\<exists>c. timerLoop nowMins bri ts = Json_rgb c \<and> inRange c)"
    if "0 \<le> nowMins \<and> nowMins < 1440 \<and> list_all validTimer ts"
    using that timerLoop_inRange [OF _ _ assms, of nowMins ts] by blast
  from a b c d e show ?thesis by blast
qed

theorem channels_in_range_witness:
  "(0 :: int) \<le> 128 \<and> (128 :: int) \<le> 255
   \<and> list_all validTimer [nightWindow, amberWindow]
   \<and> inRange (autoLightColor 7 128)
   \<and> inRange (autoLightColor2 7)
   \<and> timerLoop 390 128 [nightWindow, amberWindow] = Json_rgb \<lparr>r = 64, g = 38, b = 0\<rparr>
   \<and> inRange \<lparr>r = 64, g = 38, b = 0\<rparr>"
proof -
  have valid: "list_all validTimer [nightWindow, amberWindow]" by code_simp
  have val: "timerLoop 390 128 [nightWindow, amberWindow] = Json_rgb \<lparr>r = 64, g = 38, b = 0\<rparr>"
    by code_simp
  have rng: "inRange \<lparr>r = 64, g = 38, b = 0\<rparr>" by (simp add: inRange_def)
  from channels_in_range [of 128 7 390 "[nightWindow, amberWindow]"] valid val rng
  show ?thesis by simp
qed

end
